theory Spec2Isabelle
  imports Complex_Main
begin

section \<open>Values of the benchmark script\<close>

text \<open>
  The model follows \<^verbatim>\<open>deploy/python/infer_benchmark.py\<close>. Exceptions are values of
  \<open>error\<close>; a function that can raise returns \<open>error + 'a\<close> with \<open>Inl\<close> the exception.
  Pixel counts are Python and int64 tensor integers, modelled as unbounded \<open>int\<close>
  (an int64 sum wraps only beyond \<open>2^63\<close> pixels); ratios and clock readings are
  floats in the source and exact rationals here.
\<close>

datatype error =
    RuntimeError string
  | SystemExit int
  | ZeroDivisionError
  | ShapeError
  | TypeError

text \<open>
  A running count is first the Python integer \<open>0\<close> (lines 141 to 143) and then, after the
  first \<open>+\<close> with a tensor, a one-dimensional integer tensor.
\<close>

datatype area = Num int | Tensor "int list"

type_synonym grid = "int list list"

text \<open>
  The \<open>+\<close> of lines 167 to 169. A Python number broadcasts over a tensor; two tensors add
  element-wise when their shapes agree, a one-element tensor broadcasts, and any other
  pair of shapes is rejected.
\<close>

fun area_add :: "area \<Rightarrow> area \<Rightarrow> error + area" where
  "area_add (Num a) (Num b) = Inr (Num (a + b))"
| "area_add (Num a) (Tensor w) = Inr (Tensor (map (\<lambda>y. a + y) w))"
| "area_add (Tensor v) (Num b) = Inr (Tensor (map (\<lambda>x. x + b) v))"
| "area_add (Tensor v) (Tensor w) =
     (if length v = length w then Inr (Tensor (map (\<lambda>(x, y). x + y) (zip v w)))
      else if length v = 1 then Inr (Tensor (map (\<lambda>y. hd v + y) w))
      else if length w = 1 then Inr (Tensor (map (\<lambda>x. x + hd w) v))
      else Inl ShapeError)"

text \<open>Reading entry \<open>c\<close> of a count; a Python number stands for every entry.\<close>

fun area_at :: "area \<Rightarrow> nat \<Rightarrow> int" where
  "area_at (Num a) c = a"
| "area_at (Tensor v) c = v ! c"

section \<open>The metrics module\<close>

text \<open>
  Modelled from the spec: \<^verbatim>\<open>paddleseg.utils.metrics\<close> (\<^verbatim>\<open>calculate_area\<close>,
  \<^verbatim>\<open>mean_iou\<close>, \<^verbatim>\<open>accuracy\<close>, \<^verbatim>\<open>kappa\<close>) is not among the sources. The definitions
  below follow the operations of the spec's ConfusionAreaAccumulator.
\<close>

text \<open>
  Modelled from the spec: the pixels of a sample, prediction paired with ground truth,
  row by row. Both grids must have the same shape.
\<close>

definition same_shape :: "grid \<Rightarrow> grid \<Rightarrow> bool" where
  "same_shape pred label = (map length pred = map length label)"

definition pixel_pairs :: "grid \<Rightarrow> grid \<Rightarrow> (int \<times> int) list" where
  "pixel_pairs pred label = concat (map (\<lambda>(r, s). zip r s) (zip pred label))"

definition count_where :: "('a \<Rightarrow> bool) \<Rightarrow> 'a list \<Rightarrow> int" where
  "count_where P xs = int (length (filter P xs))"

text \<open>
  Modelled from the spec: \<^verbatim>\<open>calculate_area\<close> (the spec's accumulate, without the
  addition). Over the pixels whose ground truth is not \<open>ignore_index\<close>: per class \<open>c\<close>
  the number with prediction and ground truth both \<open>c\<close>, the number with prediction
  \<open>c\<close>, the number with ground truth \<open>c\<close>. A shape mismatch fails fast.
\<close>

definition calculate_area ::
    "grid \<Rightarrow> grid \<Rightarrow> nat \<Rightarrow> int \<Rightarrow> error + (area \<times> area \<times> area)" where
  "calculate_area pred label num_classes ignore_index =
     (if \<not> same_shape pred label then Inl ShapeError
      else
        let px = filter (\<lambda>(p, g). g \<noteq> ignore_index) (pixel_pairs pred label)
        in Inr
          (Tensor (map (\<lambda>c. count_where (\<lambda>(p, g). p = int c \<and> g = int c) px) [0..<num_classes]),
           Tensor (map (\<lambda>c. count_where (\<lambda>(p, g). p = int c) px) [0..<num_classes]),
           Tensor (map (\<lambda>c. count_where (\<lambda>(p, g). g = int c) px) [0..<num_classes])))"

text \<open>
  Modelled from the spec: a quotient that the spec writes with no guard. No metric
  derivation surfaces a division by zero as an error, so the quotient of a zero divisor is
  a value: not a finite number (the nan or infinity of a float division).
\<close>

datatype quotient = Finite rat | NotFinite

definition float_div :: "rat \<Rightarrow> rat \<Rightarrow> quotient" where
  "float_div a b = (if b = 0 then NotFinite else Finite (a / b))"

definition union_area :: "int list \<Rightarrow> int list \<Rightarrow> int list \<Rightarrow> int list" where
  "union_area intersect pred label =
     map (\<lambda>(i, p, l). p + l - i) (zip intersect (zip pred label))"

text \<open>
  Modelled from the spec: \<^verbatim>\<open>mean_iou\<close>. Per class the ratio of intersect to union,
  \<open>0\<close> where the union is \<open>0\<close>; the mean is taken over the classes with a nonzero union.
  A zero denominator is recovered as the value zero and never raised: with no class
  present the mean is \<open>0\<close>.
\<close>

definition class_iou_of :: "int list \<Rightarrow> int list \<Rightarrow> rat list" where
  "class_iou_of intersect denom =
     map (\<lambda>(i, u). if u = 0 then 0 else of_int i / of_int u) (zip intersect denom)"

definition mean_iou_vec :: "int list \<Rightarrow> int list \<Rightarrow> int list \<Rightarrow> error + (rat list \<times> rat)" where
  "mean_iou_vec intersect pred label =
     (if length pred \<noteq> length intersect \<or> length label \<noteq> length intersect then Inl ShapeError
      else
        let denom = union_area intersect pred label;
            class_iou = class_iou_of intersect denom;
            present = filter (\<lambda>(v, u). u \<noteq> 0) (zip class_iou denom);
            miou = (if present = [] then 0
                    else sum_list (map fst present) / of_nat (length present))
        in Inr (class_iou, miou))"

text \<open>
  Modelled from the spec: \<^verbatim>\<open>accuracy\<close>. Per class intersect over predicted, \<open>0\<close> where
  predicted is \<open>0\<close>; overall the quotient of the two sums.
\<close>

definition accuracy_vec :: "int list \<Rightarrow> int list \<Rightarrow> error + (rat list \<times> quotient)" where
  "accuracy_vec intersect pred =
     (if length pred \<noteq> length intersect then Inl ShapeError
      else
        let class_acc = map (\<lambda>(i, p). if p = 0 then 0 else of_int i / of_int p) (zip intersect pred)
        in Inr (class_acc, float_div (of_int (sum_list intersect)) (of_int (sum_list pred))))"

text \<open>
  Modelled from the spec: \<^verbatim>\<open>kappa\<close>. Cohen's kappa of the aggregated areas, \<open>0\<close> when
  the expected agreement is \<open>1\<close>. An agreement that is not finite (total area zero) is not
  \<open>1\<close> and gives a kappa that is not finite.
\<close>

definition observed_agreement :: "int list \<Rightarrow> int list \<Rightarrow> quotient" where
  "observed_agreement intersect label =
     float_div (of_int (sum_list intersect)) (of_int (sum_list label))"

definition expected_agreement :: "int list \<Rightarrow> int list \<Rightarrow> quotient" where
  "expected_agreement pred label =
     (let total_area = sum_list label
      in float_div (of_int (sum_list (map (\<lambda>(p, l). p * l) (zip pred label))))
           (of_int (total_area * total_area)))"

definition kappa_vec :: "int list \<Rightarrow> int list \<Rightarrow> int list \<Rightarrow> error + quotient" where
  "kappa_vec intersect pred label =
     (if length pred \<noteq> length intersect \<or> length label \<noteq> length intersect then Inl ShapeError
      else
        (case (observed_agreement intersect label, expected_agreement pred label) of
           (Finite po, Finite pe) \<Rightarrow>
             if pe = 1 then Inr (Finite 0) else Inr (Finite ((po - pe) / (1 - pe)))
         | _ \<Rightarrow> Inr NotFinite))"

text \<open>
  The metric functions as the script calls them, on running counts. The spec defines them
  on count vectors only, so a count that is still a Python number is a type error here.
\<close>

fun mean_iou :: "area \<Rightarrow> area \<Rightarrow> area \<Rightarrow> error + (rat list \<times> rat)" where
  "mean_iou (Tensor i) (Tensor p) (Tensor l) = mean_iou_vec i p l"
| "mean_iou _ _ _ = Inl TypeError"

fun accuracy :: "area \<Rightarrow> area \<Rightarrow> error + (rat list \<times> quotient)" where
  "accuracy (Tensor i) (Tensor p) = accuracy_vec i p"
| "accuracy _ _ = Inl TypeError"

fun kappa :: "area \<Rightarrow> area \<Rightarrow> area \<Rightarrow> error + quotient" where
  "kappa (Tensor i) (Tensor p) (Tensor l) = kappa_vec i p l"
| "kappa _ _ _ = Inl TypeError"

text \<open>
  \<^verbatim>\<open>test_dataset\<close> reaches the module through the name \<^verbatim>\<open>metrics\<close>; the model takes
  the module as a record of its four functions.
\<close>

record metrics_mod =
  m_calculate_area :: "grid \<Rightarrow> grid \<Rightarrow> nat \<Rightarrow> int \<Rightarrow> error + (area \<times> area \<times> area)"
  m_mean_iou :: "area \<Rightarrow> area \<Rightarrow> area \<Rightarrow> error + (rat list \<times> rat)"
  m_accuracy :: "area \<Rightarrow> area \<Rightarrow> error + (rat list \<times> quotient)"
  m_kappa :: "area \<Rightarrow> area \<Rightarrow> area \<Rightarrow> error + quotient"

definition spec_metrics :: metrics_mod where
  "spec_metrics =
     \<lparr>m_calculate_area = calculate_area, m_mean_iou = mean_iou,
      m_accuracy = accuracy, m_kappa = kappa\<rparr>"

section \<open>Command line\<close>

text \<open>
  \<^verbatim>\<open>parse_args\<close>, lines 34 to 115. The command line is the set of flags given; \<open>None\<close> is
  a flag that is absent. \<^verbatim>\<open>--config\<close>, \<^verbatim>\<open>--dataset_type\<close> and \<^verbatim>\<open>--dataset_path\<close> are
  \<^verbatim>\<open>required=True\<close>: argparse exits with status 2 when one is absent. The flags that
  \<^verbatim>\<open>test_dataset\<close> and \<^verbatim>\<open>main\<close> never read (batch size, device, TensorRT, ...) are left out.
\<close>

record cli =
  opt_config :: "string option"
  opt_dataset_type :: "string option"
  opt_dataset_path :: "string option"
  opt_dataset_mode :: "string option"

record args =
  cfg :: "string option"
  dataset_type :: "string option"
  dataset_path :: "string option"
  dataset_mode :: string

definition parse_args :: "cli \<Rightarrow> error + args" where
  "parse_args c =
     (if opt_config c = None \<or> opt_dataset_type c = None \<or> opt_dataset_path c = None
      then Inl (SystemExit 2)
      else Inr \<lparr>cfg = opt_config c, dataset_type = opt_dataset_type c,
                dataset_path = opt_dataset_path c,
                dataset_mode = (case opt_dataset_mode c of None \<Rightarrow> ''val'' | Some m \<Rightarrow> m)\<rparr>)"

text \<open>Python truth of an optional string: \<open>None\<close> and the empty string are false.\<close>

fun truthy :: "string option \<Rightarrow> bool" where
  "truthy None = False"
| "truthy (Some s) = (s \<noteq> [])"

section \<open>Collaborators of the evaluation loop\<close>

text \<open>
  A dataset: its class count, its ignore index and its samples in order. \<^verbatim>\<open>len(dataset)\<close>
  is the number of samples.
\<close>

record 'img dataset =
  num_classes :: nat
  ignore_index :: int
  samples :: "('img \<times> grid) list"

record 'tr kwargs =
  transforms :: 'tr
  dataset_root :: "string option"
  mode :: string

text \<open>
  \<^verbatim>\<open>manager.DATASETS\<close>: the registry of dataset constructors by name. A constructor may
  raise.
\<close>

type_synonym ('img, 'tr) registry = "string \<Rightarrow> ('tr kwargs \<Rightarrow> error + 'img dataset) option"

text \<open>
  The object \<^verbatim>\<open>self\<close>: what \<^verbatim>\<open>Predictor.__init__\<close> (in \<^verbatim>\<open>infer.py\<close>, not among the
  sources) leaves in it and \<^verbatim>\<open>test_dataset\<close> reads. \<open>run\<close> is lines 148 to 157 without
  the clock: feed the image, run the engine, copy the output back.
\<close>

record ('img, 'raw, 'tr) predictor =
  self_args :: args
  cfg_transforms :: 'tr
  run :: "'img \<Rightarrow> 'raw"
  postprocess :: "'raw \<Rightarrow> grid"

text \<open>
  The wall clock. \<^verbatim>\<open>time.time()\<close> reads \<open>now\<close>; for sample \<open>idx\<close> the clock advances by
  \<open>t_prepare idx\<close> during lines 148 to 150 (array, reshape, copy to the device), by
  \<open>t_run idx\<close> during \<^verbatim>\<open>self.predictor.run()\<close>, and by \<open>t_finish idx\<close> during lines 157
  to 171 (copy back, postprocess, areas, progress bar).
\<close>

record timing =
  t_prepare :: "nat \<Rightarrow> rat"
  t_run :: "nat \<Rightarrow> rat"
  t_finish :: "nat \<Rightarrow> rat"

section \<open>The evaluation loop\<close>

record loop_state =
  intersect_area_all :: area
  pred_area_all :: area
  label_area_all :: area
  total_time :: rat
  now :: rat

text \<open>Lines 141 to 144, with the clock reading \<open>t0\<close> at that moment.\<close>

definition init_state :: "rat \<Rightarrow> loop_state" where
  "init_state t0 =
     \<lparr>intersect_area_all = Num 0, pred_area_all = Num 0, label_area_all = Num 0,
      total_time = 0, now = t0\<rparr>"

text \<open>Lines 161 to 169: the areas of one sample, added to the three running counts.\<close>

definition accumulate ::
    "metrics_mod \<Rightarrow> nat \<Rightarrow> int \<Rightarrow> area \<times> area \<times> area \<Rightarrow> grid \<Rightarrow> grid
      \<Rightarrow> error + (area \<times> area \<times> area)" where
  "accumulate M nc ig acc pred label =
     (case acc of (ia_all, pa_all, la_all) \<Rightarrow>
        (case m_calculate_area M pred label nc ig of
           Inl e \<Rightarrow> Inl e
         | Inr (ia, pa, la) \<Rightarrow>
             (case area_add ia_all ia of
                Inl e \<Rightarrow> Inl e
              | Inr ia' \<Rightarrow>
                  (case area_add pa_all pa of
                     Inl e \<Rightarrow> Inl e
                   | Inr pa' \<Rightarrow>
                       (case area_add la_all la of
                          Inl e \<Rightarrow> Inl e
                        | Inr la' \<Rightarrow> Inr (ia', pa', la'))))))"

definition counts_of :: "loop_state \<Rightarrow> area \<times> area \<times> area" where
  "counts_of st = (intersect_area_all st, pred_area_all st, label_area_all st)"

text \<open>The body of the loop, lines 148 to 171, for sample \<open>idx\<close>.\<close>

definition loop_body ::
    "metrics_mod \<Rightarrow> timing \<Rightarrow> ('img, 'raw, 'tr) predictor \<Rightarrow> nat \<Rightarrow> int \<Rightarrow> loop_state
      \<Rightarrow> nat \<times> 'img \<times> grid \<Rightarrow> error + loop_state" where
  "loop_body M T self nc ig st item =
     (case item of (idx, img, label) \<Rightarrow>
        let start_time = now st + t_prepare T idx;
            raw = run self img;
            end_time = start_time + t_run T idx;
            total = total_time st + (end_time - start_time);
            pred = postprocess self raw
        in case accumulate M nc ig (counts_of st) pred label of
             Inl e \<Rightarrow> Inl e
           | Inr (ia, pa, la) \<Rightarrow>
               Inr \<lparr>intersect_area_all = ia, pred_area_all = pa, label_area_all = la,
                    total_time = total, now = end_time + t_finish T idx\<rparr>)"

fun run_loop ::
    "metrics_mod \<Rightarrow> timing \<Rightarrow> ('img, 'raw, 'tr) predictor \<Rightarrow> nat \<Rightarrow> int \<Rightarrow> loop_state
      \<Rightarrow> (nat \<times> 'img \<times> grid) list \<Rightarrow> error + loop_state" where
  "run_loop M T self nc ig st [] = Inr st"
| "run_loop M T self nc ig st (item # items) =
     (case loop_body M T self nc ig st item of
        Inl e \<Rightarrow> Inl e
      | Inr st' \<Rightarrow> run_loop M T self nc ig st' items)"

text \<open>\<^verbatim>\<open>enumerate(dataset)\<close>.\<close>

definition enumerate_samples :: "'img dataset \<Rightarrow> (nat \<times> 'img \<times> grid) list" where
  "enumerate_samples ds = zip [0..<length (samples ds)] (samples ds)"

text \<open>What the four \<^verbatim>\<open>logger.info\<close> calls of lines 178 to 184 print.\<close>

record report =
  rep_images :: nat
  rep_miou :: rat
  rep_acc :: quotient
  rep_kappa :: quotient
  rep_class_iou :: "rat list"
  rep_class_acc :: "rat list"
  rep_average_time :: rat

text \<open>
  Python's \<open>/\<close> on Python numbers, as in \<^verbatim>\<open>total_time / len(dataset)\<close> on line 184: a
  zero divisor raises.
\<close>

definition divide_checked :: "rat \<Rightarrow> rat \<Rightarrow> error + rat" where
  "divide_checked a b = (if b = 0 then Inl ZeroDivisionError else Inr (a / b))"

text \<open>\<^verbatim>\<open>DatasetPredictor.test_dataset\<close>, lines 122 to 184.\<close>

definition test_dataset ::
    "metrics_mod \<Rightarrow> ('img, 'tr) registry \<Rightarrow> timing \<Rightarrow> rat \<Rightarrow> ('img, 'raw, 'tr) predictor
      \<Rightarrow> error + report" where
  "test_dataset M datasets T t0 self =
     (case (case dataset_type (self_args self) of None \<Rightarrow> None | Some ty \<Rightarrow> datasets ty) of
        None \<Rightarrow> Inl (RuntimeError ''The dataset is not supported.'')
      | Some build \<Rightarrow>
          (case build \<lparr>transforms = cfg_transforms self,
                      dataset_root = dataset_path (self_args self),
                      mode = dataset_mode (self_args self)\<rparr> of
             Inl e \<Rightarrow> Inl e
           | Inr ds \<Rightarrow>
               (case run_loop M T self (num_classes ds) (ignore_index ds) (init_state t0)
                       (enumerate_samples ds) of
                  Inl e \<Rightarrow> Inl e
                | Inr st \<Rightarrow>
                    (case m_mean_iou M (intersect_area_all st) (pred_area_all st)
                            (label_area_all st) of
                       Inl e \<Rightarrow> Inl e
                     | Inr (ciou, mi) \<Rightarrow>
                         (case m_accuracy M (intersect_area_all st) (pred_area_all st) of
                            Inl e \<Rightarrow> Inl e
                          | Inr (cacc, ac) \<Rightarrow>
                              (case m_kappa M (intersect_area_all st) (pred_area_all st)
                                      (label_area_all st) of
                                 Inl e \<Rightarrow> Inl e
                               | Inr k \<Rightarrow>
                                   (case divide_checked (total_time st)
                                           (of_nat (length (samples ds))) of
                                      Inl e \<Rightarrow> Inl e
                                    | Inr avg \<Rightarrow>
                                        Inr \<lparr>rep_images = length (samples ds), rep_miou = mi,
                                             rep_acc = ac, rep_kappa = k,
                                             rep_class_iou = ciou, rep_class_acc = cacc,
                                             rep_average_time = avg\<rparr>)))))))"

section \<open>The entry point\<close>

text \<open>
  The calls \<^verbatim>\<open>main\<close> makes, in order: the constructor \<^verbatim>\<open>DatasetPredictor(args)\<close>, which
  loads the configuration and the model, and \<^verbatim>\<open>predictor.test_dataset()\<close>, which
  builds the dataset and runs the inference.
\<close>

datatype event = PredictorInit | TestDataset

text \<open>
  \<^verbatim>\<open>main\<close>, lines 187 to 192. The constructor comes from \<^verbatim>\<open>infer.py\<close> and is a
  parameter; it may raise.
\<close>

definition main ::
    "(args \<Rightarrow> error + ('img, 'raw, 'tr) predictor) \<Rightarrow> metrics_mod \<Rightarrow> ('img, 'tr) registry
      \<Rightarrow> timing \<Rightarrow> rat \<Rightarrow> args \<Rightarrow> event list \<times> (error + report)" where
  "main new_predictor M datasets T t0 a =
     (case new_predictor a of
        Inl e \<Rightarrow> ([PredictorInit], Inl e)
      | Inr predictor \<Rightarrow>
          if truthy (dataset_type a) \<and> truthy (dataset_path a)
          then ([PredictorInit, TestDataset], test_dataset M datasets T t0 predictor)
          else ([PredictorInit], Inl (RuntimeError ''Please set dataset_type and dataset_path.'')))"

text \<open>Lines 206 and 207: parse the command line, then \<^verbatim>\<open>main\<close>.\<close>

definition program ::
    "(args \<Rightarrow> error + ('img, 'raw, 'tr) predictor) \<Rightarrow> metrics_mod \<Rightarrow> ('img, 'tr) registry
      \<Rightarrow> timing \<Rightarrow> rat \<Rightarrow> cli \<Rightarrow> event list \<times> (error + report)" where
  "program new_predictor M datasets T t0 c =
     (case parse_args c of
        Inl e \<Rightarrow> ([], Inl e)
      | Inr a \<Rightarrow> main new_predictor M datasets T t0 a)"

section \<open>Auxiliary notions for the properties\<close>

text \<open>
  The shape of the three running counts in every state the loop reaches: still the
  Python numbers of the start, or three tensors with one entry per class, the intersect
  entry below the other two.
\<close>

definition well_formed_counts :: "nat \<Rightarrow> area \<times> area \<times> area \<Rightarrow> bool" where
  "well_formed_counts nc cnt =
     (case cnt of
        (Num a, Num b, Num c) \<Rightarrow> a \<le> b \<and> a \<le> c
      | (Tensor u, Tensor v, Tensor w) \<Rightarrow>
          length u = nc \<and> length v = nc \<and> length w = nc
          \<and> list_all2 (\<le>) u v \<and> list_all2 (\<le>) u w
      | _ \<Rightarrow> False)"

text \<open>
  The reduction step of two independent accumulators: their count vectors summed
  element-wise, with the same \<open>+\<close> as the loop.
\<close>

definition merge_counts ::
    "area \<times> area \<times> area \<Rightarrow> area \<times> area \<times> area \<Rightarrow> error + (area \<times> area \<times> area)" where
  "merge_counts x y =
     (case (x, y) of ((i1, p1, l1), (i2, p2, l2)) \<Rightarrow>
        (case area_add i1 i2 of
           Inl e \<Rightarrow> Inl e
         | Inr i \<Rightarrow>
             (case area_add p1 p2 of
                Inl e \<Rightarrow> Inl e
              | Inr p \<Rightarrow>
                  (case area_add l1 l2 of
                     Inl e \<Rightarrow> Inl e
                   | Inr l \<Rightarrow> Inr (i, p, l)))))"

text \<open>The denominator of the IoU of class \<open>c\<close>: predicted plus label minus intersect.\<close>

definition union_at :: "int list \<Rightarrow> int list \<Rightarrow> int list \<Rightarrow> nat \<Rightarrow> int" where
  "union_at intersect pred label c = pred ! c + label ! c - intersect ! c"

text \<open>The classes, out of \<open>n\<close>, whose IoU denominator is not zero.\<close>

definition present_classes :: "int list \<Rightarrow> int list \<Rightarrow> int list \<Rightarrow> nat set" where
  "present_classes intersect pred label =
     {c. c < length intersect \<and> union_at intersect pred label c \<noteq> 0}"

text \<open>A grid with the value \<open>x\<close> put in before column \<open>j\<close> of row \<open>i\<close>.\<close>

definition insert_pixel :: "grid \<Rightarrow> nat \<Rightarrow> nat \<Rightarrow> int \<Rightarrow> grid" where
  "insert_pixel g i j x = g[i := take j (g ! i) @ x # drop j (g ! i)]"

text \<open>
  The element-wise sum of a list of vectors with \<open>nc\<close> entries, and the counts that a run
  over samples with the areas \<open>as\<close> ends with: the numbers of the start when there is no
  sample, the three sums otherwise.
\<close>

definition vec_sum :: "nat \<Rightarrow> int list list \<Rightarrow> int list" where
  "vec_sum nc vs = map (\<lambda>c. sum_list (map (\<lambda>v. v ! c) vs)) [0..<nc]"

definition total_counts ::
    "nat \<Rightarrow> (int list \<times> int list \<times> int list) list \<Rightarrow> area \<times> area \<times> area" where
  "total_counts nc as =
     (if as = [] then (Num 0, Num 0, Num 0)
      else (Tensor (vec_sum nc (map (\<lambda>(i, p, l). i) as)),
            Tensor (vec_sum nc (map (\<lambda>(i, p, l). p) as)),
            Tensor (vec_sum nc (map (\<lambda>(i, p, l). l) as))))"

text \<open>
  The samples of a dataset have the areas \<open>as\<close>, each a triple of vectors with one entry
  per class.
\<close>

definition areas_of_samples ::
    "metrics_mod \<Rightarrow> ('img, 'raw, 'tr) predictor \<Rightarrow> nat \<Rightarrow> int \<Rightarrow> ('img \<times> grid) list
      \<Rightarrow> (int list \<times> int list \<times> int list) list \<Rightarrow> bool" where
  "areas_of_samples M self nc ig smps as =
     list_all2
       (\<lambda>(img, label) (ia, pa, la).
          m_calculate_area M (postprocess self (run self img)) label nc ig
            = Inr (Tensor ia, Tensor pa, Tensor la)
          \<and> length ia = nc \<and> length pa = nc \<and> length la = nc)
       smps as"

text \<open>Three zero vectors with one entry per class.\<close>

definition zero_counts :: "nat \<Rightarrow> area \<times> area \<times> area" where
  "zero_counts nc = (Tensor (replicate nc 0), Tensor (replicate nc 0), Tensor (replicate nc 0))"

text \<open>
  Concrete collaborators for evaluating the model: a predictor whose engine and
  postprocessing hand the image through as the prediction, a clock that advances by 2
  before, by 3 plus the index during and by 5 after the engine runs on each sample, and a
  registry with one dataset of two samples.
\<close>

definition example_args :: args where
  "example_args =
     \<lparr>cfg = Some ''deploy.yaml'', dataset_type = Some ''Cityscapes'',
      dataset_path = Some ''data'', dataset_mode = ''val''\<rparr>"

definition example_predictor :: "args \<Rightarrow> (grid, grid, unit) predictor" where
  "example_predictor a =
     \<lparr>self_args = a, cfg_transforms = (), run = (\<lambda>img. img), postprocess = (\<lambda>raw. raw)\<rparr>"

definition example_timing :: timing where
  "example_timing =
     \<lparr>t_prepare = (\<lambda>idx. 2), t_run = (\<lambda>idx. 3 + of_nat idx), t_finish = (\<lambda>idx. 5)\<rparr>"

definition example_dataset :: "grid dataset" where
  "example_dataset =
     \<lparr>num_classes = 2, ignore_index = 255,
      samples = [([[0, 1], [1, 1]], [[0, 1], [1, 0]]), ([[1, 0]], [[1, 255]])]\<rparr>"

definition example_registry :: "grid dataset \<Rightarrow> (grid, unit) registry" where
  "example_registry ds = (\<lambda>name. if name = ''Cityscapes'' then Some (\<lambda>kw. Inr ds) else None)"

text \<open>A constructor that succeeds.\<close>

definition example_new_predictor :: "args \<Rightarrow> error + (grid, grid, unit) predictor" where
  "example_new_predictor a = Inr (example_predictor a)"

definition empty_dataset :: "grid dataset" where
  "empty_dataset = \<lparr>num_classes = 2, ignore_index = 255, samples = []\<rparr>"

section \<open>Helper facts\<close>

lemma count_where_conj_le: "count_where (\<lambda>x. P x \<and> Q x) xs \<le> count_where P xs"
  by (induction xs) (auto simp: count_where_def)

lemma count_where_conj_le2: "count_where (\<lambda>x. P x \<and> Q x) xs \<le> count_where Q xs"
  by (induction xs) (auto simp: count_where_def)

lemma calculate_area_Inr:
  assumes "calculate_area pred label nc ig = Inr r"
  shows "\<exists>u v w. r = (Tensor u, Tensor v, Tensor w) \<and> length u = nc \<and> length v = nc
           \<and> length w = nc \<and> list_all2 (\<le>) u v \<and> list_all2 (\<le>) u w"
proof -
  let ?px = "filter (\<lambda>(p, g). g \<noteq> ig) (pixel_pairs pred label)"
  have le_pred: "count_where (\<lambda>(p, g). p = int c \<and> g = int c) ?px
        \<le> count_where (\<lambda>(p, g). p = int c) ?px" for c
    using count_where_conj_le [of "\<lambda>(p, g). p = int c" "\<lambda>(p, g). g = int c" ?px]
    by (simp add: case_prod_unfold)
  have le_label: "count_where (\<lambda>(p, g). p = int c \<and> g = int c) ?px
        \<le> count_where (\<lambda>(p, g). g = int c) ?px" for c
    using count_where_conj_le2 [of "\<lambda>(p, g). p = int c" "\<lambda>(p, g). g = int c" ?px]
    by (simp add: case_prod_unfold)
  from assms show ?thesis
    by (auto simp: calculate_area_def Let_def list_all2_conv_all_nth le_pred le_label
        split: if_splits)
qed

lemma area_add_well_formed:
  assumes "well_formed_counts nc (a1, a2, a3)"
    and "length u = nc" "length v = nc" "length w = nc"
    and "list_all2 (\<le>) u v" "list_all2 (\<le>) u w"
  shows "\<exists>b1 b2 b3. area_add a1 (Tensor u) = Inr b1 \<and> area_add a2 (Tensor v) = Inr b2
          \<and> area_add a3 (Tensor w) = Inr b3 \<and> well_formed_counts nc (b1, b2, b3)"
  using assms
  by (cases a1; cases a2; cases a3)
     (auto simp: well_formed_counts_def list_all2_conv_all_nth add_mono)

lemma accumulate_well_formed:
  assumes "well_formed_counts nc acc"
    and "accumulate spec_metrics nc ig acc pred label = Inr acc'"
  shows "well_formed_counts nc acc'"
proof -
  obtain a1 a2 a3 where acc: "acc = (a1, a2, a3)" by (cases acc) auto
  from assms(2) obtain r where r: "calculate_area pred label nc ig = Inr r"
    by (auto simp: accumulate_def spec_metrics_def acc split: sum.splits)
  from calculate_area_Inr [OF r] obtain u v w where
    uvw: "r = (Tensor u, Tensor v, Tensor w)" "length u = nc" "length v = nc" "length w = nc"
      "list_all2 (\<le>) u v" "list_all2 (\<le>) u w" by blast
  from area_add_well_formed [OF assms(1) [unfolded acc] uvw(2-6)] obtain b1 b2 b3 where
    b: "area_add a1 (Tensor u) = Inr b1" "area_add a2 (Tensor v) = Inr b2"
       "area_add a3 (Tensor w) = Inr b3" "well_formed_counts nc (b1, b2, b3)" by blast
  from assms(2) have "acc' = (b1, b2, b3)"
    by (simp add: accumulate_def spec_metrics_def acc r uvw(1) b)
  with b(4) show ?thesis by simp
qed

lemma run_loop_well_formed:
  assumes "well_formed_counts nc (counts_of st)"
    and "run_loop spec_metrics T self nc ig st items = Inr st'"
  shows "well_formed_counts nc (counts_of st')"
  using assms
proof (induction items arbitrary: st)
  case Nil
  then show ?case by simp
next
  case (Cons item items)
  from Cons.prems(2) obtain st1 where
    body: "loop_body spec_metrics T self nc ig st item = Inr st1"
    and rest: "run_loop spec_metrics T self nc ig st1 items = Inr st'"
    by (auto split: sum.splits)
  from body obtain pred label acc1 where
    "accumulate spec_metrics nc ig (counts_of st) pred label = Inr acc1"
    and "counts_of st1 = acc1"
    by (auto simp: loop_body_def Let_def counts_of_def split: prod.splits sum.splits)
  with accumulate_well_formed [OF Cons.prems(1)] have "well_formed_counts nc (counts_of st1)"
    by blast
  from Cons.IH [OF this rest] show ?case .
qed

lemma well_formed_counts_at:
  assumes "well_formed_counts nc (a1, a2, a3)" and "c < nc"
  shows "area_at a1 c \<le> area_at a2 c \<and> area_at a1 c \<le> area_at a3 c"
  using assms
  by (cases a1; cases a2; cases a3) (auto simp: well_formed_counts_def list_all2_conv_all_nth)

lemma map_add_zero: "map ((+) (0::int)) xs = xs"
  by (induction xs) auto

lemma same_shape_rows:
  assumes "same_shape pred label" and "i < length label"
  shows "length pred = length label" and "length (pred ! i) = length (label ! i)"
proof -
  from assms(1) have eq: "map length pred = map length label" by (simp add: same_shape_def)
  then show len: "length pred = length label" by (rule map_eq_imp_length_eq)
  from eq have "map length pred ! i = map length label ! i" by simp
  with assms(2) len show "length (pred ! i) = length (label ! i)" by simp
qed

lemma same_shape_insert_pixel:
  assumes "same_shape pred label" and "i < length label"
  shows "same_shape (insert_pixel pred i j x) (insert_pixel label i j y)"
  using assms same_shape_rows [OF assms]
  by (simp add: same_shape_def insert_pixel_def map_update)

lemma filter_zip_insert:
  assumes "length r = length s" and "\<not> P (x, y)"
  shows "filter P (zip (take j r @ x # drop j r) (take j s @ y # drop j s)) = filter P (zip r s)"
proof -
  have "zip (take j r @ x # drop j r) (take j s @ y # drop j s)
      = zip (take j r) (take j s) @ (x, y) # zip (drop j r) (drop j s)"
    using assms(1) by (simp add: zip_append)
  moreover have "zip r s = zip (take j r) (take j s) @ zip (drop j r) (drop j s)"
    by (metis append_take_drop_id take_zip drop_zip)
  ultimately show ?thesis using assms(2) by simp
qed

lemma filter_pixel_pairs_insert:
  assumes "same_shape pred label" and "i < length label" and "\<not> P (x, y)"
  shows "filter P (pixel_pairs (insert_pixel pred i j x) (insert_pixel label i j y))
       = filter P (pixel_pairs pred label)"
proof -
  note rows = same_shape_rows [OF assms(1,2)]
  let ?f = "\<lambda>(r, s). zip r s"
  let ?zs = "map ?f (zip pred label)"
  have i: "i < length ?zs" using rows(1) assms(2) by simp
  have upd: "map ?f (zip (insert_pixel pred i j x) (insert_pixel label i j y))
      = ?zs[i := zip (take j (pred ! i) @ x # drop j (pred ! i))
                     (take j (label ! i) @ y # drop j (label ! i))]"
    by (simp add: insert_pixel_def zip_update map_update)
  have nth: "?zs ! i = zip (pred ! i) (label ! i)"
    using rows(1) assms(2) by simp
  have step: "filter P (concat (?zs[i := z])) = filter P (concat ?zs)"
    if "filter P z = filter P (?zs ! i)" for z
  proof -
    have "filter P (concat (?zs[i := z]))
        = filter P (concat (take i ?zs)) @ filter P z @ filter P (concat (drop (Suc i) ?zs))"
      using i by (simp add: upd_conv_take_nth_drop)
    also have "\<dots> = filter P (concat (take i ?zs @ ?zs ! i # drop (Suc i) ?zs))"
      using that by simp
    also have "take i ?zs @ ?zs ! i # drop (Suc i) ?zs = ?zs"
      using i by (rule id_take_nth_drop [symmetric])
    finally show ?thesis .
  qed
  have "filter P (zip (take j (pred ! i) @ x # drop j (pred ! i))
                      (take j (label ! i) @ y # drop j (label ! i))) = filter P (?zs ! i)"
    using filter_zip_insert [of "pred ! i" "label ! i" P x y j] rows(2) assms(3) nth
    by simp
  from step [OF this] show ?thesis by (simp only: pixel_pairs_def upd)
qed

lemma union_area_upt:
  assumes "length pred = length intersect" and "length label = length intersect"
  shows "union_area intersect pred label
       = map (union_at intersect pred label) [0..<length intersect]"
  using assms by (intro nth_equalityI) (simp_all add: union_area_def union_at_def)

lemma class_iou_upt:
  assumes "length pred = length intersect" and "length label = length intersect"
  shows "class_iou_of intersect (union_area intersect pred label)
       = map (\<lambda>c. if union_at intersect pred label c = 0 then 0
                  else of_int (intersect ! c) / of_int (union_at intersect pred label c))
           [0..<length intersect]"
  using assms
  by (intro nth_equalityI) (simp_all add: class_iou_of_def union_area_upt)

lemma present_list:
  "set (filter (\<lambda>c. union_at intersect pred label c \<noteq> 0) [0..<length intersect])
     = present_classes intersect pred label"
  by (auto simp: present_classes_def)

lemma mean_iou_vec_eq:
  assumes len: "length pred = length intersect" "length label = length intersect"
  shows "mean_iou_vec intersect pred label =
      Inr (map (\<lambda>c. if union_at intersect pred label c = 0 then 0
                    else of_int (intersect ! c) / of_int (union_at intersect pred label c))
             [0..<length intersect],
           if present_classes intersect pred label = {} then 0
           else (\<Sum>c\<in>present_classes intersect pred label.
                   of_int (intersect ! c) / of_int (union_at intersect pred label c))
                 / of_nat (card (present_classes intersect pred label)))"
proof -
  let ?n = "length intersect"
  let ?u = "union_at intersect pred label"
  let ?iou = "\<lambda>c. if ?u c = 0 then (0::rat) else of_int (intersect ! c) / of_int (?u c)"
  let ?ps = "filter (\<lambda>c. ?u c \<noteq> 0) [0..<?n]"
  let ?present = "map (\<lambda>c. (?iou c, ?u c)) ?ps"
  have zipped: "zip (map ?iou [0..<?n]) (map ?u [0..<?n]) = map (\<lambda>c. (?iou c, ?u c)) [0..<?n]"
    by (simp add: zip_map_map zip_same_conv_map)
  have filt: "filter (\<lambda>(v, u). u \<noteq> 0) (map (\<lambda>c. (?iou c, ?u c)) [0..<?n]) = ?present"
    by (simp add: filter_map o_def)
  have dist: "distinct ?ps" by simp
  have total: "sum_list (map fst ?present)
      = (\<Sum>c\<in>present_classes intersect pred label. of_int (intersect ! c) / of_int (?u c))"
  proof -
    have "sum_list (map fst ?present) = sum_list (map ?iou ?ps)"
      by (simp add: o_def)
    also have "\<dots> = sum ?iou (set ?ps)"
      using dist by (rule sum_list_distinct_conv_sum_set)
    also have "\<dots> = sum ?iou (present_classes intersect pred label)"
      by (simp only: present_list)
    also have "\<dots> = (\<Sum>c\<in>present_classes intersect pred label.
        of_int (intersect ! c) / of_int (?u c))"
      by (rule sum.cong) (simp_all add: present_classes_def)
    finally show ?thesis .
  qed
  have count: "length ?present = card (present_classes intersect pred label)"
    using distinct_card [OF dist] by (simp only: present_list length_map)
  have none: "(?present = []) = (present_classes intersect pred label = {})"
  proof -
    have "(?present = []) = (set ?ps = {})"
      by (simp only: map_is_Nil_conv set_empty)
    then show ?thesis by (simp only: present_list)
  qed
  have ua: "union_area intersect pred label = map ?u [0..<?n]"
    using len by (rule union_area_upt)
  have ci: "class_iou_of intersect (union_area intersect pred label) = map ?iou [0..<?n]"
    using len by (rule class_iou_upt)
  have present: "filter (\<lambda>(v, u). u \<noteq> 0)
        (zip (class_iou_of intersect (union_area intersect pred label))
             (union_area intersect pred label))
      = ?present"
    unfolding ci unfolding ua zipped filt ..
  show ?thesis
    unfolding mean_iou_vec_def Let_def unfolding present unfolding none total count ci
    using len by simp
qed

lemma add_zero_vector: "map (\<lambda>(x, y). x + y) (zip (replicate (length a) (0::int)) a) = a"
  by (induction a) auto

lemma run_loop_total_time:
  assumes "run_loop M T self nc ig st items = Inr st'"
  shows "total_time st' = total_time st + sum_list (map (\<lambda>item. t_run T (fst item)) items)"
  using assms
proof (induction items arbitrary: st)
  case Nil
  then show ?case by simp
next
  case (Cons item items)
  from Cons.prems obtain st1 where
    body: "loop_body M T self nc ig st item = Inr st1"
    and rest: "run_loop M T self nc ig st1 items = Inr st'"
    by (auto split: sum.splits)
  from body have "total_time st1 = total_time st + t_run T (fst item)"
    by (auto simp: loop_body_def Let_def split: prod.splits sum.splits)
  with Cons.IH [OF rest] show ?case by simp
qed

lemma enumerate_run_times:
  "sum_list (map (\<lambda>item. t_run T (fst item)) (enumerate_samples ds))
     = (\<Sum>idx<length (samples ds). t_run T idx)"
proof -
  have "map (\<lambda>item. t_run T (fst item)) (enumerate_samples ds)
      = map (t_run T) (map fst (enumerate_samples ds))"
    by (simp add: o_def)
  also have "map fst (enumerate_samples ds) = [0..<length (samples ds)]"
    by (simp add: enumerate_samples_def)
  finally show ?thesis
    by (simp add: interv_sum_list_conv_sum_set_nat lessThan_atLeast0)
qed

lemma run_loop_append:
  "run_loop M T self nc ig st (xs @ ys) =
     (case run_loop M T self nc ig st xs of
        Inl e \<Rightarrow> Inl e
      | Inr st' \<Rightarrow> run_loop M T self nc ig st' ys)"
  by (induction xs arbitrary: st) (simp_all split: sum.splits)

lemma length_vec_sum: "length (vec_sum nc vs) = nc"
  by (simp add: vec_sum_def)

lemma vec_sum_single: "length v = nc \<Longrightarrow> vec_sum nc [v] = v"
  by (intro nth_equalityI) (simp_all add: vec_sum_def)

lemma vec_sum_snoc:
  "length v = nc \<Longrightarrow> map (\<lambda>(x, y). x + y) (zip (vec_sum nc vs) v) = vec_sum nc (vs @ [v])"
  by (intro nth_equalityI) (simp_all add: vec_sum_def)

lemma area_add_total:
  assumes "length v = nc"
  shows "area_add (Num 0) (Tensor v) = Inr (Tensor (vec_sum nc [v]))"
    and "area_add (Tensor (vec_sum nc vs)) (Tensor v) = Inr (Tensor (vec_sum nc (vs @ [v])))"
  using assms vec_sum_snoc [OF assms, of vs]
  by (simp_all add: map_add_zero vec_sum_single length_vec_sum)

lemma accumulate_total_counts:
  assumes "m_calculate_area M pred label nc ig = Inr (Tensor ia, Tensor pa, Tensor la)"
    and "length ia = nc" "length pa = nc" "length la = nc"
  shows "accumulate M nc ig (total_counts nc as) pred label
       = Inr (total_counts nc (as @ [(ia, pa, la)]))"
proof (cases "as = []")
  case True
  then show ?thesis
    using assms area_add_total(1) [of ia nc] area_add_total(1) [of pa nc]
      area_add_total(1) [of la nc]
    by (simp add: accumulate_def total_counts_def)
next
  case False
  then show ?thesis
    using assms
      area_add_total(2) [of ia nc "map (\<lambda>(i, p, l). i) as"]
      area_add_total(2) [of pa nc "map (\<lambda>(i, p, l). p) as"]
      area_add_total(2) [of la nc "map (\<lambda>(i, p, l). l) as"]
    by (simp add: accumulate_def total_counts_def)
qed

lemma run_loop_closed_form:
  assumes "areas_of_samples M self nc ig (map snd items) as"
  shows "\<exists>st. run_loop M T self nc ig (init_state t0) items = Inr st
           \<and> counts_of st = total_counts nc as
           \<and> total_time st = sum_list (map (\<lambda>item. t_run T (fst item)) items)"
  using assms
proof (induction items arbitrary: as rule: rev_induct)
  case Nil
  then show ?case
    by (simp add: areas_of_samples_def counts_of_def init_state_def total_counts_def)
next
  case (snoc item items)
  obtain idx img label where item: "item = (idx, img, label)"
    by (cases item) auto
  from snoc.prems obtain as0 ia pa la where
    as: "as = as0 @ [(ia, pa, la)]"
    and prefix: "areas_of_samples M self nc ig (map snd items) as0"
    and area: "m_calculate_area M (postprocess self (run self img)) label nc ig
        = Inr (Tensor ia, Tensor pa, Tensor la)"
    and len: "length ia = nc" "length pa = nc" "length la = nc"
    by (auto simp: areas_of_samples_def item list_all2_append1 list_all2_Cons1)
  from snoc.IH [OF prefix] obtain st where
    st: "run_loop M T self nc ig (init_state t0) items = Inr st"
    and counts: "counts_of st = total_counts nc as0"
    and time: "total_time st = sum_list (map (\<lambda>item. t_run T (fst item)) items)"
    by blast
  from accumulate_total_counts [OF area len, of as0]
  have acc: "accumulate M nc ig (counts_of st) (postprocess self (run self img)) label
      = Inr (total_counts nc as)"
    by (simp only: counts as)
  obtain ci cp cl where total: "total_counts nc as = (ci, cp, cl)"
    by (cases "total_counts nc as") auto
  have body: "loop_body M T self nc ig st (idx, img, label)
      = Inr \<lparr>intersect_area_all = ci, pred_area_all = cp, label_area_all = cl,
              total_time = total_time st + t_run T idx,
              now = now st + t_prepare T idx + t_run T idx + t_finish T idx\<rparr>"
    by (simp add: loop_body_def Let_def acc total)
  show ?case
    by (simp add: run_loop_append st item body counts_of_def total time)
qed

lemma enumerate_snd: "map snd (enumerate_samples ds) = samples ds"
  by (simp add: enumerate_samples_def)

lemma test_dataset_built:
  assumes "dataset_type (self_args self) = Some ty"
    and "datasets ty = Some build"
    and "build \<lparr>transforms = cfg_transforms self, dataset_root = dataset_path (self_args self),
                mode = dataset_mode (self_args self)\<rparr> = Inr ds"
  shows "test_dataset M datasets T t0 self =
     (case run_loop M T self (num_classes ds) (ignore_index ds) (init_state t0)
             (enumerate_samples ds) of
        Inl e \<Rightarrow> Inl e
      | Inr st \<Rightarrow>
          (case m_mean_iou M (intersect_area_all st) (pred_area_all st) (label_area_all st) of
             Inl e \<Rightarrow> Inl e
           | Inr (ciou, mi) \<Rightarrow>
               (case m_accuracy M (intersect_area_all st) (pred_area_all st) of
                  Inl e \<Rightarrow> Inl e
                | Inr (cacc, ac) \<Rightarrow>
                    (case m_kappa M (intersect_area_all st) (pred_area_all st)
                            (label_area_all st) of
                       Inl e \<Rightarrow> Inl e
                     | Inr k \<Rightarrow>
                         (case divide_checked (total_time st)
                                 (of_nat (length (samples ds))) of
                            Inl e \<Rightarrow> Inl e
                          | Inr avg \<Rightarrow>
                              Inr \<lparr>rep_images = length (samples ds), rep_miou = mi,
                                   rep_acc = ac, rep_kappa = k, rep_class_iou = ciou,
                                   rep_class_acc = cacc, rep_average_time = avg\<rparr>)))))"
  using assms by (simp add: test_dataset_def)

lemma example_built:
  "dataset_type (self_args (example_predictor example_args)) = Some ''Cityscapes''"
  "example_registry ds ''Cityscapes'' = Some (\<lambda>kw. Inr ds)"
  by (simp_all add: example_predictor_def example_args_def example_registry_def)

lemma example_areas:
  "m_calculate_area spec_metrics [[0, 1], [1, 1]] [[0, 1], [1, 0]] 2 255
     = Inr (Tensor [1, 2], Tensor [1, 3], Tensor [2, 2])"
  "m_calculate_area spec_metrics [[1, 0]] [[1, 255]] 2 255
     = Inr (Tensor [0, 1], Tensor [0, 1], Tensor [0, 1])"
  by (simp_all add: spec_metrics_def calculate_area_def same_shape_def pixel_pairs_def
      count_where_def upt_rec)

lemma example_loop:
  "run_loop spec_metrics example_timing (example_predictor example_args) 2 255 (init_state 0)
       [(0, [[0, 1], [1, 1]], [[0, 1], [1, 0]]), (1, [[1, 0]], [[1, 255]])]
     = Inr \<lparr>intersect_area_all = Tensor [1, 3], pred_area_all = Tensor [1, 4],
             label_area_all = Tensor [2, 3], total_time = 7, now = 21\<rparr>"
proof -
  have run: "postprocess (example_predictor example_args)
      (run (example_predictor example_args) img) = img" for img
    by (simp add: example_predictor_def)
  show ?thesis
    by (simp add: loop_body_def accumulate_def run example_areas init_state_def counts_of_def
        example_timing_def)
qed

lemma example_metrics:
  "m_mean_iou spec_metrics (Tensor [1, 3]) (Tensor [1, 4]) (Tensor [2, 3])
     = Inr ([1 / 2, 3 / 4], 5 / 8)"
  "m_accuracy spec_metrics (Tensor [1, 3]) (Tensor [1, 4]) = Inr ([1, 3 / 4], Finite (4 / 5))"
  "m_kappa spec_metrics (Tensor [1, 3]) (Tensor [1, 4]) (Tensor [2, 3]) = Inr (Finite (6 / 11))"
  by (simp_all add: spec_metrics_def mean_iou_vec_def union_area_def class_iou_of_def
      accuracy_vec_def kappa_vec_def observed_agreement_def expected_agreement_def
      float_div_def)

lemma example_items:
  "enumerate_samples example_dataset
     = [(0, [[0, 1], [1, 1]], [[0, 1], [1, 0]]), (1, [[1, 0]], [[1, 255]])]"
  "num_classes example_dataset = 2" "ignore_index example_dataset = 255"
  "length (samples example_dataset) = 2"
  by (simp_all add: enumerate_samples_def example_dataset_def upt_rec)

lemma example_run:
  "test_dataset spec_metrics (example_registry example_dataset) example_timing 0
       (example_predictor example_args)
     = Inr \<lparr>rep_images = 2, rep_miou = 5 / 8, rep_acc = Finite (4 / 5),
             rep_kappa = Finite (6 / 11), rep_class_iou = [1 / 2, 3 / 4],
             rep_class_acc = [1, 3 / 4], rep_average_time = 7 / 2\<rparr>"
proof -
  have "test_dataset spec_metrics (example_registry example_dataset) example_timing 0
      (example_predictor example_args)
    = (case run_loop spec_metrics example_timing (example_predictor example_args)
             (num_classes example_dataset) (ignore_index example_dataset) (init_state 0)
             (enumerate_samples example_dataset) of
        Inl e \<Rightarrow> Inl e
      | Inr st \<Rightarrow>
          (case m_mean_iou spec_metrics (intersect_area_all st) (pred_area_all st)
                  (label_area_all st) of
             Inl e \<Rightarrow> Inl e
           | Inr (ciou, mi) \<Rightarrow>
               (case m_accuracy spec_metrics (intersect_area_all st) (pred_area_all st) of
                  Inl e \<Rightarrow> Inl e
                | Inr (cacc, ac) \<Rightarrow>
                    (case m_kappa spec_metrics (intersect_area_all st) (pred_area_all st)
                            (label_area_all st) of
                       Inl e \<Rightarrow> Inl e
                     | Inr k \<Rightarrow>
                         (case divide_checked (total_time st)
                                 (of_nat (length (samples example_dataset))) of
                            Inl e \<Rightarrow> Inl e
                          | Inr avg \<Rightarrow>
                              Inr \<lparr>rep_images = length (samples example_dataset),
                                   rep_miou = mi, rep_acc = ac, rep_kappa = k,
                                   rep_class_iou = ciou, rep_class_acc = cacc,
                                   rep_average_time = avg\<rparr>)))))"
    using test_dataset_built [of "example_predictor example_args" "''Cityscapes''"
        "example_registry example_dataset" "\<lambda>kw. Inr example_dataset" example_dataset
        spec_metrics example_timing 0] example_built
    by simp
  from this [unfolded example_items example_loop]
  show ?thesis
    by (simp add: example_metrics divide_checked_def)
qed

section \<open>The worked scenario\<close>

text \<open>
  C3. Ground truth \<open>[[0,1],[1,0]]\<close>, prediction \<open>[[0,1],[1,1]]\<close>, two classes, ignore index
  255: one accumulate step from the initial counts gives intersect \<open>[1,2]\<close>, predicted
  \<open>[1,3]\<close> and label \<open>[2,2]\<close>; the class IoU is \<open>[1/2, 2/3]\<close> with mean \<open>7/12\<close>, which is
  within \<open>0.0001\<close> of \<open>0.5833\<close>, and the overall accuracy is \<open>3/4\<close>.
\<close>

theorem scenario_two_by_two:
  "accumulate spec_metrics 2 255 (Num 0, Num 0, Num 0) [[0, 1], [1, 1]] [[0, 1], [1, 0]]
     = Inr (Tensor [1, 2], Tensor [1, 3], Tensor [2, 2])
   \<and> mean_iou (Tensor [1, 2]) (Tensor [1, 3]) (Tensor [2, 2]) = Inr ([1 / 2, 2 / 3], 7 / 12)
   \<and> \<bar>7 / 12 - 5833 / 10000\<bar> < (1 / 10000 :: rat)
   \<and> accuracy (Tensor [1, 2]) (Tensor [1, 3]) = Inr ([1, 2 / 3], Finite (3 / 4))"
  by (simp add: accumulate_def spec_metrics_def calculate_area_def same_shape_def
      pixel_pairs_def count_where_def upt_rec mean_iou_vec_def union_area_def
      class_iou_of_def accuracy_vec_def float_div_def)

section \<open>The intersect bound\<close>

text \<open>
  C1. In every state the loop reaches from the initial counts, over any sequence of samples,
  the accumulated intersect area of each class \<open>c\<close> is at most its predicted area and
  at most its label area.
\<close>

theorem intersect_bounded:
  assumes "run_loop spec_metrics T self nc ig (init_state t0) items = Inr st"
    and "c < nc"
  shows "area_at (intersect_area_all st) c \<le> area_at (pred_area_all st) c
       \<and> area_at (intersect_area_all st) c \<le> area_at (label_area_all st) c"
proof -
  have "well_formed_counts nc (counts_of (init_state t0))"
    by (simp add: well_formed_counts_def counts_of_def init_state_def)
  from run_loop_well_formed [OF this assms(1)]
  have "well_formed_counts nc (counts_of st)" .
  then show ?thesis
    using well_formed_counts_at [of nc "intersect_area_all st" "pred_area_all st"
        "label_area_all st" c] assms(2)
    by (simp add: counts_of_def)
qed

theorem intersect_bounded_witness:
  "run_loop spec_metrics example_timing (example_predictor example_args) 2 255 (init_state 0)
       [(0, [[0, 1], [1, 1]], [[0, 1], [1, 0]])]
     = Inr \<lparr>intersect_area_all = Tensor [1, 2], pred_area_all = Tensor [1, 3],
             label_area_all = Tensor [2, 2], total_time = 3, now = 10\<rparr>
   \<and> (1::nat) < 2
   \<and> area_at (Tensor [1, 2]) 1 \<le> area_at (Tensor [1, 3]) 1
   \<and> area_at (Tensor [1, 2]) 1 \<le> area_at (Tensor [2, 2]) 1"
proof -
  have run: "run_loop spec_metrics example_timing (example_predictor example_args) 2 255
        (init_state 0) [(0, [[0, 1], [1, 1]], [[0, 1], [1, 0]])]
      = Inr \<lparr>intersect_area_all = Tensor [1, 2], pred_area_all = Tensor [1, 3],
              label_area_all = Tensor [2, 2], total_time = 3, now = 10\<rparr>"
    by (simp add: loop_body_def accumulate_def spec_metrics_def calculate_area_def
        same_shape_def pixel_pairs_def count_where_def upt_rec init_state_def counts_of_def
        example_timing_def example_predictor_def)
  have c: "(1::nat) < 2" by simp
  from intersect_bounded [OF run c] run show ?thesis by simp
qed

section \<open>Additivity of the accumulation\<close>

text \<open>
  C2. For two samples A and B whose areas are vectors with one entry per class: one pass
  over \<open>[A, B]\<close> ends in the same state as a pass over \<open>[A]\<close> followed by a pass over \<open>[B]\<close>
  on the same accumulator, and its three count vectors are the element-wise sums of the
  counts of two independent accumulators, one fed A and one fed B.
\<close>

theorem accumulation_additive:
  assumes A: "m_calculate_area M (postprocess self (run self imgA)) labelA nc ig
                = Inr (Tensor ia, Tensor pa, Tensor la)"
    and lenA: "length ia = nc" "length pa = nc" "length la = nc"
    and B: "m_calculate_area M (postprocess self (run self imgB)) labelB nc ig
                = Inr (Tensor ib, Tensor pb, Tensor lb)"
    and lenB: "length ib = nc" "length pb = nc" "length lb = nc"
  shows "\<exists>sAB sA sB.
      run_loop M T self nc ig (init_state t0) [(ka, imgA, labelA), (kb, imgB, labelB)] = Inr sAB
    \<and> run_loop M T self nc ig (init_state t0) [(ka, imgA, labelA)] = Inr sA
    \<and> run_loop M T self nc ig sA [(kb, imgB, labelB)] = Inr sAB
    \<and> run_loop M T' self nc ig (init_state t1) [(kb', imgB, labelB)] = Inr sB
    \<and> merge_counts (counts_of sA) (counts_of sB) = Inr (counts_of sAB)
    \<and> counts_of sAB =
        (Tensor (map (\<lambda>(x, y). x + y) (zip ia ib)), Tensor (map (\<lambda>(x, y). x + y) (zip pa pb)),
         Tensor (map (\<lambda>(x, y). x + y) (zip la lb)))"
  using assms
  by (simp add: loop_body_def accumulate_def counts_of_def init_state_def Let_def
      merge_counts_def map_add_zero)

theorem accumulation_additive_witness:
  "\<exists>sAB sA sB.
      run_loop spec_metrics example_timing (example_predictor example_args) 2 255 (init_state 0)
        [(0, [[0, 1], [1, 1]], [[0, 1], [1, 0]]), (1, [[1, 0]], [[1, 255]])] = Inr sAB
    \<and> run_loop spec_metrics example_timing (example_predictor example_args) 2 255 (init_state 0)
        [(0, [[0, 1], [1, 1]], [[0, 1], [1, 0]])] = Inr sA
    \<and> run_loop spec_metrics example_timing (example_predictor example_args) 2 255 sA
        [(1, [[1, 0]], [[1, 255]])] = Inr sAB
    \<and> run_loop spec_metrics example_timing (example_predictor example_args) 2 255 (init_state 7)
        [(0, [[1, 0]], [[1, 255]])] = Inr sB
    \<and> merge_counts (counts_of sA) (counts_of sB) = Inr (counts_of sAB)
    \<and> counts_of sAB = (Tensor [1, 3], Tensor [1, 4], Tensor [2, 3])"
proof -
  have A: "m_calculate_area spec_metrics
        (postprocess (example_predictor example_args)
          (run (example_predictor example_args) [[0, 1], [1, 1]]))
        [[0, 1], [1, 0]] 2 255
      = Inr (Tensor [1, 2], Tensor [1, 3], Tensor [2, 2])"
    by (simp add: spec_metrics_def calculate_area_def same_shape_def pixel_pairs_def
        count_where_def upt_rec example_predictor_def)
  have B: "m_calculate_area spec_metrics
        (postprocess (example_predictor example_args)
          (run (example_predictor example_args) [[1, 0]]))
        [[1, 255]] 2 255
      = Inr (Tensor [0, 1], Tensor [0, 1], Tensor [0, 1])"
    by (simp add: spec_metrics_def calculate_area_def same_shape_def pixel_pairs_def
        count_where_def upt_rec example_predictor_def)
  have len: "length [1, 2 :: int] = 2" "length [1, 3 :: int] = 2" "length [2, 2 :: int] = 2"
    "length [0, 1 :: int] = 2"
    by simp_all
  from accumulation_additive [OF A len(1) len(2) len(3) B len(4) len(4) len(4),
      of example_timing 0 0 1 example_timing 7 0]
  show ?thesis by simp
qed

section \<open>Ignored pixels\<close>

text \<open>
  C4. A pixel whose ground truth is the ignore index contributes to none of the three area
  vectors: putting such a pixel (with any predicted value \<open>v\<close>) at a position of a sample
  changes neither the areas of the sample nor the result of accumulating it.
\<close>

theorem ignored_pixel_no_contribution:
  assumes "same_shape pred label" and "i < length label"
  shows "calculate_area (insert_pixel pred i j v) (insert_pixel label i j ig) nc ig
           = calculate_area pred label nc ig
       \<and> accumulate spec_metrics nc ig cnt (insert_pixel pred i j v) (insert_pixel label i j ig)
           = accumulate spec_metrics nc ig cnt pred label"
proof -
  have "filter (\<lambda>(p, g). g \<noteq> ig)
          (pixel_pairs (insert_pixel pred i j v) (insert_pixel label i j ig))
       = filter (\<lambda>(p, g). g \<noteq> ig) (pixel_pairs pred label)"
    using filter_pixel_pairs_insert [of pred label i "\<lambda>(p, g). g \<noteq> ig" v ig j] assms
    by simp
  then have "calculate_area (insert_pixel pred i j v) (insert_pixel label i j ig) nc ig
           = calculate_area pred label nc ig"
    using assms same_shape_insert_pixel [OF assms, of j v ig]
    by (simp add: calculate_area_def)
  then show ?thesis by (simp add: accumulate_def spec_metrics_def)
qed

theorem ignored_pixel_no_contribution_witness:
  "same_shape [[0, 1], [1, 1]] [[0, 1], [1, 0]]
   \<and> (1::nat) < length [[0, 1], [1, 0 :: int]]
   \<and> calculate_area [[0, 1], [1, 1, 1]] [[0, 1], [1, 255, 0]] 2 255
       = calculate_area [[0, 1], [1, 1]] [[0, 1], [1, 0]] 2 255
   \<and> accumulate spec_metrics 2 255 (Num 0, Num 0, Num 0) [[0, 1], [1, 1, 1]] [[0, 1], [1, 255, 0]]
       = accumulate spec_metrics 2 255 (Num 0, Num 0, Num 0) [[0, 1], [1, 1]] [[0, 1], [1, 0]]"
proof -
  have shape: "same_shape [[0, 1], [1, 1]] [[0, 1], [1, 0]]"
    by (simp add: same_shape_def)
  have row: "(1::nat) < length [[0, 1], [1, 0 :: int]]"
    by simp
  from ignored_pixel_no_contribution [OF shape row, of 1 1 255 2 "(Num 0, Num 0, Num 0)"]
    shape row
  show ?thesis by (simp add: insert_pixel_def)
qed

section \<open>Mean IoU\<close>

text \<open>
  C5. For all count vectors with one entry per class, \<open>mean_iou\<close> returns per class \<open>c\<close> the
  ratio of intersect to predicted + label - intersect, and \<open>0\<close> where that denominator is
  zero; the mean it returns is the sum of the ratios of the classes with a nonzero
  denominator divided by the number of those classes, so a class with a zero denominator
  is left out of the mean and not averaged in as \<open>0\<close>. With no such class the mean is \<open>0\<close>.
\<close>

theorem mean_iou_over_present_classes:
  assumes "length pred = length intersect" and "length label = length intersect"
  shows "mean_iou (Tensor intersect) (Tensor pred) (Tensor label) =
      Inr (map (\<lambda>c. if union_at intersect pred label c = 0 then 0
                    else of_int (intersect ! c) / of_int (union_at intersect pred label c))
             [0..<length intersect],
           if present_classes intersect pred label = {} then 0
           else (\<Sum>c\<in>present_classes intersect pred label.
                   of_int (intersect ! c) / of_int (union_at intersect pred label c))
                 / of_nat (card (present_classes intersect pred label)))"
  using mean_iou_vec_eq [OF assms] by simp

theorem mean_iou_over_present_classes_witness:
  "length [3, 0 :: int] = length [2, 0 :: int] \<and> length [4, 0 :: int] = length [2, 0 :: int]
   \<and> present_classes [2, 0] [3, 0] [4, 0] = {0}
   \<and> mean_iou (Tensor [2, 0]) (Tensor [3, 0]) (Tensor [4, 0]) = Inr ([2 / 5, 0], 2 / 5)
   \<and> present_classes [0, 0] [0, 0] [0, 0] = {}
   \<and> mean_iou (Tensor [0, 0]) (Tensor [0, 0]) (Tensor [0, 0]) = Inr ([0, 0], 0)"
proof -
  have len: "length [3, 0 :: int] = length [2, 0 :: int]"
    "length [4, 0 :: int] = length [2, 0 :: int]"
    by simp_all
  have present: "present_classes [2, 0] [3, 0] [4, 0] = {0}"
    by (auto simp: present_classes_def union_at_def less_Suc_eq)
  from mean_iou_over_present_classes [OF len]
  have one: "mean_iou (Tensor [2, 0]) (Tensor [3, 0]) (Tensor [4, 0]) = Inr ([2 / 5, 0], 2 / 5)"
    by (simp add: present union_at_def upt_rec)
  have zlen: "length [0, 0 :: int] = length [0, 0 :: int]"
    by simp
  have absent: "present_classes [0, 0] [0, 0] [0, 0] = {}"
    by (auto simp: present_classes_def union_at_def nth_Cons')
  from mean_iou_over_present_classes [OF zlen zlen]
  have none: "mean_iou (Tensor [0, 0]) (Tensor [0, 0]) (Tensor [0, 0]) = Inr ([0, 0], 0)"
    by (simp add: absent union_at_def upt_rec)
  from len present one absent none show ?thesis by simp
qed

section \<open>Zero denominators\<close>

text \<open>
  C6. For all count vectors with one entry per class, none of the three metric derivations
  raises an error, whatever denominator is zero: a class whose IoU denominator is zero has
  IoU \<open>0\<close>, a class whose predicted area is zero has accuracy \<open>0\<close>, and kappa is \<open>0\<close> when the
  expected agreement is \<open>1\<close>.
\<close>

theorem metrics_never_raise_on_zero:
  assumes len: "length pred = length intersect" "length label = length intersect"
  shows "\<exists>ciou mi cacc ac k.
      mean_iou (Tensor intersect) (Tensor pred) (Tensor label) = Inr (ciou, mi)
    \<and> accuracy (Tensor intersect) (Tensor pred) = Inr (cacc, ac)
    \<and> kappa (Tensor intersect) (Tensor pred) (Tensor label) = Inr k
    \<and> (\<forall>c<length intersect. union_at intersect pred label c = 0 \<longrightarrow> ciou ! c = 0)
    \<and> (\<forall>c<length intersect. pred ! c = 0 \<longrightarrow> cacc ! c = 0)
    \<and> (expected_agreement pred label = Finite 1 \<longrightarrow> k = Finite 0)"
proof -
  have iou: "\<exists>ciou mi. mean_iou (Tensor intersect) (Tensor pred) (Tensor label) = Inr (ciou, mi)
      \<and> (\<forall>c<length intersect. union_at intersect pred label c = 0 \<longrightarrow> ciou ! c = 0)"
    using mean_iou_vec_eq [OF len] by simp
  have acc: "\<exists>cacc ac. accuracy (Tensor intersect) (Tensor pred) = Inr (cacc, ac)
      \<and> (\<forall>c<length intersect. pred ! c = 0 \<longrightarrow> cacc ! c = 0)"
    using len(1) by (simp add: accuracy_vec_def)
  have kap: "\<exists>k. kappa (Tensor intersect) (Tensor pred) (Tensor label) = Inr k
      \<and> (expected_agreement pred label = Finite 1 \<longrightarrow> k = Finite 0)"
    using len
    by (cases "observed_agreement intersect label"; cases "expected_agreement pred label")
      (simp_all add: kappa_vec_def float_div_def observed_agreement_def expected_agreement_def
        Let_def split: if_splits)
  from iou acc kap show ?thesis by blast
qed

theorem metrics_never_raise_on_zero_witness:
  "length [4, 0 :: int] = length [4, 0 :: int]
   \<and> mean_iou (Tensor [4, 0]) (Tensor [4, 0]) (Tensor [4, 0]) = Inr ([1, 0], 1)
   \<and> accuracy (Tensor [4, 0]) (Tensor [4, 0]) = Inr ([1, 0], Finite 1)
   \<and> expected_agreement [4, 0] [4, 0] = Finite 1
   \<and> kappa (Tensor [4, 0]) (Tensor [4, 0]) (Tensor [4, 0]) = Inr (Finite 0)
   \<and> mean_iou (Tensor [0, 0]) (Tensor [0, 0]) (Tensor [0, 0]) = Inr ([0, 0], 0)
   \<and> accuracy (Tensor [0, 0]) (Tensor [0, 0]) = Inr ([0, 0], NotFinite)
   \<and> kappa (Tensor [0, 0]) (Tensor [0, 0]) (Tensor [0, 0]) = Inr NotFinite"
proof -
  have len: "length [4, 0 :: int] = length [4, 0 :: int]" by simp
  have zlen: "length [0, 0 :: int] = length [0, 0 :: int]" by simp
  from metrics_never_raise_on_zero [OF len len] metrics_never_raise_on_zero [OF zlen zlen] len
  show ?thesis
    by (simp add: mean_iou_vec_def union_area_def class_iou_of_def accuracy_vec_def
        kappa_vec_def observed_agreement_def expected_agreement_def float_div_def)
qed

section \<open>Missing dataset arguments\<close>

text \<open>
  C7, as the code has it. When \<^verbatim>\<open>--dataset_type\<close> or \<^verbatim>\<open>--dataset_path\<close> is absent from the
  command line, the program exits in \<^verbatim>\<open>parse_args\<close> before any call of \<^verbatim>\<open>main\<close>. When
  both are given and one is empty, the program fails after the predictor has been
  constructed and before \<^verbatim>\<open>test_dataset\<close> is called; if the constructor succeeds the error
  is the \<^verbatim>\<open>RuntimeError\<close> of line 192.
\<close>

theorem missing_dataset_arguments_fatal:
  "(opt_dataset_type c = None \<or> opt_dataset_path c = None
      \<longrightarrow> program new_predictor M datasets T t0 c = ([], Inl (SystemExit 2)))
   \<and> (parse_args c = Inr a \<and> (dataset_type a = Some [] \<or> dataset_path a = Some [])
      \<longrightarrow> (\<exists>e. program new_predictor M datasets T t0 c = ([PredictorInit], Inl e))
        \<and> (\<forall>predictor. new_predictor a = Inr predictor
              \<longrightarrow> program new_predictor M datasets T t0 c
                  = ([PredictorInit],
                     Inl (RuntimeError ''Please set dataset_type and dataset_path.''))))"
proof (intro conjI impI)
  assume "opt_dataset_type c = None \<or> opt_dataset_path c = None"
  then show "program new_predictor M datasets T t0 c = ([], Inl (SystemExit 2))"
    by (auto simp: program_def parse_args_def)
next
  assume h: "parse_args c = Inr a \<and> (dataset_type a = Some [] \<or> dataset_path a = Some [])"
  then have falsy: "\<not> (truthy (dataset_type a) \<and> truthy (dataset_path a))"
    by auto
  from h have prog: "program new_predictor M datasets T t0 c = main new_predictor M datasets T t0 a"
    by (simp add: program_def)
  show "\<exists>e. program new_predictor M datasets T t0 c = ([PredictorInit], Inl e)"
    using falsy by (cases "new_predictor a") (auto simp: prog main_def)
  show "\<forall>predictor. new_predictor a = Inr predictor
      \<longrightarrow> program new_predictor M datasets T t0 c
          = ([PredictorInit], Inl (RuntimeError ''Please set dataset_type and dataset_path.''))"
    using falsy by (auto simp: prog main_def)
qed

theorem missing_dataset_arguments_fatal_witness:
  "program example_new_predictor spec_metrics (example_registry example_dataset) example_timing 0
       \<lparr>opt_config = Some ''deploy.yaml'', opt_dataset_type = None,
        opt_dataset_path = Some ''data'', opt_dataset_mode = None\<rparr>
     = ([], Inl (SystemExit 2))
   \<and> parse_args \<lparr>opt_config = Some ''deploy.yaml'', opt_dataset_type = Some ''Cityscapes'',
                  opt_dataset_path = Some [], opt_dataset_mode = None\<rparr>
     = Inr \<lparr>cfg = Some ''deploy.yaml'', dataset_type = Some ''Cityscapes'',
             dataset_path = Some [], dataset_mode = ''val''\<rparr>
   \<and> program example_new_predictor spec_metrics (example_registry example_dataset) example_timing 0
       \<lparr>opt_config = Some ''deploy.yaml'', opt_dataset_type = Some ''Cityscapes'',
        opt_dataset_path = Some [], opt_dataset_mode = None\<rparr>
     = ([PredictorInit], Inl (RuntimeError ''Please set dataset_type and dataset_path.''))"
proof -
  let ?absent = "\<lparr>opt_config = Some ''deploy.yaml'', opt_dataset_type = None,
        opt_dataset_path = Some ''data'', opt_dataset_mode = None\<rparr>"
  let ?blank = "\<lparr>opt_config = Some ''deploy.yaml'', opt_dataset_type = Some ''Cityscapes'',
        opt_dataset_path = Some [], opt_dataset_mode = None\<rparr>"
  let ?a = "\<lparr>cfg = Some ''deploy.yaml'', dataset_type = Some ''Cityscapes'',
             dataset_path = Some [], dataset_mode = ''val''\<rparr>"
  have parsed: "parse_args ?blank = Inr ?a"
    by (simp add: parse_args_def)
  have built: "example_new_predictor ?a = Inr (example_predictor ?a)"
    by (simp add: example_new_predictor_def)
  from missing_dataset_arguments_fatal [of ?absent example_new_predictor spec_metrics
      "example_registry example_dataset" example_timing 0 ?a]
  have first: "program example_new_predictor spec_metrics (example_registry example_dataset)
      example_timing 0 ?absent = ([], Inl (SystemExit 2))"
    by simp
  from missing_dataset_arguments_fatal [of ?blank example_new_predictor spec_metrics
      "example_registry example_dataset" example_timing 0 ?a] parsed built
  have second: "program example_new_predictor spec_metrics (example_registry example_dataset)
      example_timing 0 ?blank
      = ([PredictorInit], Inl (RuntimeError ''Please set dataset_type and dataset_path.''))"
    by simp
  from first parsed second show ?thesis by simp
qed

text \<open>
  The claim as stated fails for an empty \<^verbatim>\<open>--dataset_path\<close>: the error is raised after the
  predictor, and with it the model, has been constructed.
\<close>

theorem empty_dataset_path_after_predictor_init:
  "program example_new_predictor spec_metrics (example_registry example_dataset) example_timing 0
       \<lparr>opt_config = Some ''deploy.yaml'', opt_dataset_type = Some ''Cityscapes'',
        opt_dataset_path = Some [], opt_dataset_mode = None\<rparr>
     = ([PredictorInit], Inl (RuntimeError ''Please set dataset_type and dataset_path.''))
   \<and> [PredictorInit] \<noteq> []"
  by (simp add: program_def parse_args_def main_def example_new_predictor_def)

section \<open>The empty dataset\<close>

text \<open>
  C8, as the code has it. When the dataset that \<^verbatim>\<open>test_dataset\<close> builds has no sample,
  the run does not complete and nothing rejects the dataset before the loop: the metric
  derivations of lines 173 to 176 are called on the initial counts, the number \<open>0\<close>, and
  the run ends with the first error one of them raises; when all three return, it ends
  with the division by \<^verbatim>\<open>len(dataset)\<close> of line 184.
\<close>

theorem empty_dataset_faults:
  assumes "dataset_type (self_args self) = Some ty"
    and "datasets ty = Some build"
    and "build \<lparr>transforms = cfg_transforms self, dataset_root = dataset_path (self_args self),
                mode = dataset_mode (self_args self)\<rparr> = Inr ds"
    and "samples ds = []"
  shows "test_dataset M datasets T t0 self =
      Inl (case m_mean_iou M (Num 0) (Num 0) (Num 0) of
             Inl e \<Rightarrow> e
           | Inr r1 \<Rightarrow>
               (case m_accuracy M (Num 0) (Num 0) of
                  Inl e \<Rightarrow> e
                | Inr r2 \<Rightarrow>
                    (case m_kappa M (Num 0) (Num 0) (Num 0) of
                       Inl e \<Rightarrow> e
                     | Inr k \<Rightarrow> ZeroDivisionError)))"
proof -
  have loop: "run_loop M T self (num_classes ds) (ignore_index ds) (init_state t0)
      (enumerate_samples ds) = Inr (init_state t0)"
    using assms(4) by (simp add: enumerate_samples_def)
  have counts: "intersect_area_all (init_state t0) = Num 0" "pred_area_all (init_state t0) = Num 0"
    "label_area_all (init_state t0) = Num 0"
    by (simp_all add: init_state_def)
  note built = test_dataset_built [of self ty datasets build ds M T t0]
  show ?thesis
    using built assms
    by (simp add: loop counts divide_checked_def split: sum.splits prod.splits
        del: run_loop.simps)
qed

theorem empty_dataset_faults_witness:
  "dataset_type (self_args (example_predictor example_args)) = Some ''Cityscapes''
   \<and> samples empty_dataset = []
   \<and> m_mean_iou spec_metrics (Num 0) (Num 0) (Num 0) = Inl TypeError
   \<and> test_dataset spec_metrics (example_registry empty_dataset) example_timing 0
          (example_predictor example_args) = Inl TypeError"
proof -
  have none: "samples empty_dataset = []"
    by (simp add: empty_dataset_def)
  have metric: "m_mean_iou spec_metrics (Num 0) (Num 0) (Num 0) = Inl TypeError"
    by (simp add: spec_metrics_def)
  have "test_dataset spec_metrics (example_registry empty_dataset) example_timing 0
          (example_predictor example_args) = Inl TypeError"
    using empty_dataset_faults [of "example_predictor example_args" "''Cityscapes''"
        "example_registry empty_dataset" "\<lambda>kw. Inr empty_dataset" empty_dataset
        spec_metrics example_timing 0] example_built none
    by (simp add: metric)
  with example_built(1) none metric show ?thesis by simp
qed

text \<open>
  The claim as stated fails for the metric functions of the spec, which take count vectors:
  on the empty dataset the run ends on line 173, in \<^verbatim>\<open>mean_iou\<close>, and the division of
  line 184 is not reached.
\<close>

theorem empty_dataset_fault_is_not_the_division:
  "test_dataset spec_metrics (example_registry empty_dataset) example_timing 0
       (example_predictor example_args) = Inl TypeError
   \<and> test_dataset spec_metrics (example_registry empty_dataset) example_timing 0
       (example_predictor example_args) \<noteq> Inl ZeroDivisionError"
  by (simp add: test_dataset_def example_registry_def example_predictor_def example_args_def
      empty_dataset_def enumerate_samples_def init_state_def spec_metrics_def)

section \<open>Lifecycle of the counts\<close>

text \<open>
  C9, as the code has it. At the start of a run the three running counts are the Python
  number \<open>0\<close>, not vectors. For a dataset whose samples have areas of one entry per class,
  the counts after the first \<open>k\<close> samples, for every \<open>k\<close> up to the number of samples, are
  still that number when \<open>k\<close> is \<open>0\<close> and otherwise the vectors of length C of the
  element-wise sums of the areas of those samples, which adding zero vectors of length C
  leaves unchanged. After a run over no sample the counts are still the number \<open>0\<close>. The
  report is derived once, from the counts after all samples of the dataset.
\<close>

theorem counts_lifecycle:
  assumes "dataset_type (self_args self) = Some ty"
    and "datasets ty = Some build"
    and "build \<lparr>transforms = cfg_transforms self, dataset_root = dataset_path (self_args self),
                mode = dataset_mode (self_args self)\<rparr> = Inr ds"
    and "areas_of_samples M self (num_classes ds) (ignore_index ds) (samples ds) as"
  shows "counts_of (init_state t0) = (Num 0, Num 0, Num 0)
    \<and> counts_of (init_state t0) \<noteq> zero_counts (num_classes ds)
    \<and> (\<forall>k\<le>length (samples ds). \<exists>st.
          run_loop M T self (num_classes ds) (ignore_index ds) (init_state t0)
            (take k (enumerate_samples ds)) = Inr st
        \<and> counts_of st = total_counts (num_classes ds) (take k as)
        \<and> (k = 0 \<longrightarrow> counts_of st = (Num 0, Num 0, Num 0))
        \<and> (0 < k \<longrightarrow>
              counts_of st =
                (Tensor (vec_sum (num_classes ds) (map (\<lambda>(i, p, l). i) (take k as))),
                 Tensor (vec_sum (num_classes ds) (map (\<lambda>(i, p, l). p) (take k as))),
                 Tensor (vec_sum (num_classes ds) (map (\<lambda>(i, p, l). l) (take k as))))
            \<and> merge_counts (zero_counts (num_classes ds)) (counts_of st) = Inr (counts_of st)))
    \<and> test_dataset M datasets T t0 self =
        (case total_counts (num_classes ds) as of
           (ci, cp, cl) \<Rightarrow>
             (case m_mean_iou M ci cp cl of
                Inl e \<Rightarrow> Inl e
              | Inr (ciou, mi) \<Rightarrow>
                  (case m_accuracy M ci cp of
                     Inl e \<Rightarrow> Inl e
                   | Inr (cacc, ac) \<Rightarrow>
                       (case m_kappa M ci cp cl of
                          Inl e \<Rightarrow> Inl e
                        | Inr k \<Rightarrow>
                            (case divide_checked (\<Sum>idx<length (samples ds). t_run T idx)
                                    (of_nat (length (samples ds))) of
                               Inl e \<Rightarrow> Inl e
                             | Inr avg \<Rightarrow>
                                 Inr \<lparr>rep_images = length (samples ds), rep_miou = mi,
                                      rep_acc = ac, rep_kappa = k, rep_class_iou = ciou,
                                      rep_class_acc = cacc, rep_average_time = avg\<rparr>)))))"
proof (intro conjI allI impI)
  let ?nc = "num_classes ds"
  show "counts_of (init_state t0) = (Num 0, Num 0, Num 0)"
    by (simp add: counts_of_def init_state_def)
  show "counts_of (init_state t0) \<noteq> zero_counts ?nc"
    by (simp add: counts_of_def init_state_def zero_counts_def)
  have len: "length as = length (samples ds)"
    using assms(4) by (simp add: areas_of_samples_def list_all2_lengthD)
  show "\<exists>st. run_loop M T self ?nc (ignore_index ds) (init_state t0)
            (take k (enumerate_samples ds)) = Inr st
        \<and> counts_of st = total_counts ?nc (take k as)
        \<and> (k = 0 \<longrightarrow> counts_of st = (Num 0, Num 0, Num 0))
        \<and> (0 < k \<longrightarrow>
              counts_of st =
                (Tensor (vec_sum ?nc (map (\<lambda>(i, p, l). i) (take k as))),
                 Tensor (vec_sum ?nc (map (\<lambda>(i, p, l). p) (take k as))),
                 Tensor (vec_sum ?nc (map (\<lambda>(i, p, l). l) (take k as))))
            \<and> merge_counts (zero_counts ?nc) (counts_of st) = Inr (counts_of st))"
    if k: "k \<le> length (samples ds)" for k
  proof -
    have "areas_of_samples M self ?nc (ignore_index ds)
        (map snd (take k (enumerate_samples ds))) (take k as)"
      using assms(4)
      by (simp add: areas_of_samples_def take_map [symmetric] enumerate_snd list_all2_takeI)
    from run_loop_closed_form [OF this, of T t0] obtain st where
      st: "run_loop M T self ?nc (ignore_index ds) (init_state t0)
          (take k (enumerate_samples ds)) = Inr st"
      and counts: "counts_of st = total_counts ?nc (take k as)"
      by blast
    have empty: "(take k as = []) = (k = 0)"
      using k len by (cases as) auto
    have zeros: "area_add (Tensor (replicate ?nc 0)) (Tensor (vec_sum ?nc vs))
        = Inr (Tensor (vec_sum ?nc vs))" for vs
      using add_zero_vector [of "vec_sum ?nc vs"] by (simp add: length_vec_sum)
    have none: "counts_of st = (Num 0, Num 0, Num 0)" if "k = 0"
      using that by (simp add: counts total_counts_def)
    have some: "counts_of st =
          (Tensor (vec_sum ?nc (map (\<lambda>(i, p, l). i) (take k as))),
           Tensor (vec_sum ?nc (map (\<lambda>(i, p, l). p) (take k as))),
           Tensor (vec_sum ?nc (map (\<lambda>(i, p, l). l) (take k as))))" if "0 < k"
      using that empty by (simp add: counts total_counts_def)
    have merged: "merge_counts (zero_counts ?nc) (counts_of st) = Inr (counts_of st)" if "0 < k"
      unfolding some [OF that] by (simp add: merge_counts_def zero_counts_def zeros
          del: area_add.simps)
    show ?thesis
      using st counts none some merged by (intro exI [of _ st]) blast
  qed
  have "areas_of_samples M self ?nc (ignore_index ds) (map snd (enumerate_samples ds)) as"
    using assms(4) by (simp only: enumerate_snd)
  from run_loop_closed_form [OF this, of T t0] obtain st where
    st: "run_loop M T self ?nc (ignore_index ds) (init_state t0) (enumerate_samples ds) = Inr st"
    and counts: "counts_of st = total_counts ?nc as"
    and time: "total_time st = sum_list (map (\<lambda>item. t_run T (fst item)) (enumerate_samples ds))"
    by blast
  obtain ci cp cl where total: "total_counts ?nc as = (ci, cp, cl)"
    by (cases "total_counts ?nc as") auto
  from counts total have fields: "intersect_area_all st = ci" "pred_area_all st = cp"
    "label_area_all st = cl"
    by (simp_all add: counts_of_def)
  note built = test_dataset_built [of self ty datasets build ds M T t0]
  show "test_dataset M datasets T t0 self =
        (case total_counts ?nc as of
           (ci, cp, cl) \<Rightarrow>
             (case m_mean_iou M ci cp cl of
                Inl e \<Rightarrow> Inl e
              | Inr (ciou, mi) \<Rightarrow>
                  (case m_accuracy M ci cp of
                     Inl e \<Rightarrow> Inl e
                   | Inr (cacc, ac) \<Rightarrow>
                       (case m_kappa M ci cp cl of
                          Inl e \<Rightarrow> Inl e
                        | Inr k \<Rightarrow>
                            (case divide_checked (\<Sum>idx<length (samples ds). t_run T idx)
                                    (of_nat (length (samples ds))) of
                               Inl e \<Rightarrow> Inl e
                             | Inr avg \<Rightarrow>
                                 Inr \<lparr>rep_images = length (samples ds), rep_miou = mi,
                                      rep_acc = ac, rep_kappa = k, rep_class_iou = ciou,
                                      rep_class_acc = cacc, rep_average_time = avg\<rparr>)))))"
    using built assms(1,2,3)
    by (simp add: st total fields time enumerate_run_times split: sum.splits prod.splits
        del: run_loop.simps)
qed

theorem counts_lifecycle_witness:
  "areas_of_samples spec_metrics (example_predictor example_args) 2 255
       (samples example_dataset) [([1, 2], [1, 3], [2, 2]), ([0, 1], [0, 1], [0, 1])]
   \<and> run_loop spec_metrics example_timing (example_predictor example_args) 2 255 (init_state 0)
       (take 0 (enumerate_samples example_dataset)) = Inr (init_state 0)
   \<and> counts_of (init_state 0) = (Num 0, Num 0, Num 0)
   \<and> (\<exists>st. run_loop spec_metrics example_timing (example_predictor example_args) 2 255
          (init_state 0) (take 2 (enumerate_samples example_dataset)) = Inr st
        \<and> counts_of st = (Tensor [1, 3], Tensor [1, 4], Tensor [2, 3])
        \<and> merge_counts (zero_counts 2) (counts_of st) = Inr (counts_of st))
   \<and> test_dataset spec_metrics (example_registry example_dataset) example_timing 0
        (example_predictor example_args)
     = Inr \<lparr>rep_images = 2, rep_miou = 5 / 8, rep_acc = Finite (4 / 5),
             rep_kappa = Finite (6 / 11), rep_class_iou = [1 / 2, 3 / 4],
             rep_class_acc = [1, 3 / 4], rep_average_time = 7 / 2\<rparr>"
proof -
  let ?as = "[([1, 2], [1, 3], [2, 2]), ([0, 1], [0, 1], [0, 1 :: int])]"
  have run: "postprocess (example_predictor example_args)
      (run (example_predictor example_args) img) = img" for img
    by (simp add: example_predictor_def)
  have areas: "areas_of_samples spec_metrics (example_predictor example_args)
      (num_classes example_dataset) (ignore_index example_dataset) (samples example_dataset) ?as"
    by (simp add: areas_of_samples_def example_items run example_areas)
      (simp add: example_dataset_def run example_areas)
  note inst = counts_lifecycle [of "example_predictor example_args" "''Cityscapes''"
      "example_registry example_dataset" "\<lambda>kw. Inr example_dataset" example_dataset
      spec_metrics ?as 0 example_timing]
  have built: "(\<lambda>kw. Inr example_dataset)
      \<lparr>transforms = cfg_transforms (example_predictor example_args),
       dataset_root = dataset_path (self_args (example_predictor example_args)),
       mode = dataset_mode (self_args (example_predictor example_args))\<rparr>
      = (Inr example_dataset :: error + grid dataset)"
    by simp
  note concl = inst [OF example_built(1) example_built(2) built areas]
  have k: "2 \<le> length (samples example_dataset)"
    by (simp add: example_items)
  from concl [THEN conjunct2, THEN conjunct2, THEN conjunct1, rule_format, OF k]
  have two: "\<exists>st.
      run_loop spec_metrics example_timing (example_predictor example_args)
        (num_classes example_dataset) (ignore_index example_dataset)
        (init_state 0) (take 2 (enumerate_samples example_dataset)) = Inr st
      \<and> counts_of st = total_counts (num_classes example_dataset) (take 2 ?as)
      \<and> merge_counts (zero_counts (num_classes example_dataset)) (counts_of st)
          = Inr (counts_of st)"
    by auto
  have sums: "total_counts 2 (take 2 ?as) = (Tensor [1, 3], Tensor [1, 4], Tensor [2, 3])"
    by (simp add: total_counts_def vec_sum_def upt_rec)
  have start: "run_loop spec_metrics example_timing (example_predictor example_args) 2 255
      (init_state 0) (take 0 (enumerate_samples example_dataset)) = Inr (init_state 0)"
    by simp
  show ?thesis
    apply (intro conjI)
        apply (rule areas [unfolded example_items(2,3)])
       apply (rule start)
      apply (rule concl [THEN conjunct1])
     apply (rule two [unfolded example_items(2,3) sums])
    apply (rule example_run)
    done
qed

text \<open>
  The claim as stated fails at the start of a run over two classes: the counts are the
  number \<open>0\<close>, and with no sample they are still that number when the loop ends.
\<close>

theorem initial_counts_are_numbers:
  "counts_of (init_state 0) \<noteq> zero_counts 2
   \<and> run_loop spec_metrics example_timing (example_predictor example_args) 2 255 (init_state 0) []
       = Inr (init_state 0)
   \<and> intersect_area_all (init_state 0) = Num 0"
  by (simp add: counts_of_def init_state_def zero_counts_def)

section \<open>The timed interval\<close>

text \<open>
  C10. For the dataset that the run builds, the run ends as its loop and its metric
  derivations do, and when they succeed on a dataset with at least one sample the report
  gives the number of samples of that dataset and, as the average time, the sum over its
  samples of the time the clock advances during \<^verbatim>\<open>self.predictor.run()\<close> divided by that
  number. The time spent before the call (array, reshape, copy to the device) and after
  it (copy back, postprocessing, areas) and the clock reading at the start have no part
  in it.
\<close>

theorem average_time_is_run_time:
  assumes "dataset_type (self_args self) = Some ty"
    and "datasets ty = Some build"
    and "build \<lparr>transforms = cfg_transforms self, dataset_root = dataset_path (self_args self),
                mode = dataset_mode (self_args self)\<rparr> = Inr ds"
  shows "test_dataset M datasets T t0 self =
      (case run_loop M T self (num_classes ds) (ignore_index ds) (init_state t0)
              (enumerate_samples ds) of
         Inl e \<Rightarrow> Inl e
       | Inr st \<Rightarrow>
           (case m_mean_iou M (intersect_area_all st) (pred_area_all st) (label_area_all st) of
              Inl e \<Rightarrow> Inl e
            | Inr (ciou, mi) \<Rightarrow>
                (case m_accuracy M (intersect_area_all st) (pred_area_all st) of
                   Inl e \<Rightarrow> Inl e
                 | Inr (cacc, ac) \<Rightarrow>
                     (case m_kappa M (intersect_area_all st) (pred_area_all st)
                             (label_area_all st) of
                        Inl e \<Rightarrow> Inl e
                      | Inr k \<Rightarrow>
                          if samples ds = [] then Inl ZeroDivisionError
                          else Inr \<lparr>rep_images = length (samples ds), rep_miou = mi,
                                    rep_acc = ac, rep_kappa = k, rep_class_iou = ciou,
                                    rep_class_acc = cacc,
                                    rep_average_time =
                                      (\<Sum>idx<length (samples ds). t_run T idx)
                                        / of_nat (length (samples ds))\<rparr>))))
    \<and> (\<forall>r. test_dataset M datasets T t0 self = Inr r
          \<longrightarrow> samples ds \<noteq> [] \<and> rep_images r = length (samples ds)
            \<and> rep_average_time r
                = (\<Sum>idx<length (samples ds). t_run T idx) / of_nat (length (samples ds)))"
proof -
  let ?loop = "run_loop M T self (num_classes ds) (ignore_index ds) (init_state t0)
      (enumerate_samples ds)"
  note built = test_dataset_built [of self ty datasets build ds M T t0]
  have time: "total_time st = (\<Sum>idx<length (samples ds). t_run T idx)" if "?loop = Inr st" for st
    using run_loop_total_time [OF that] by (simp add: enumerate_run_times init_state_def)
  have eq: "test_dataset M datasets T t0 self =
      (case ?loop of
         Inl e \<Rightarrow> Inl e
       | Inr st \<Rightarrow>
           (case m_mean_iou M (intersect_area_all st) (pred_area_all st) (label_area_all st) of
              Inl e \<Rightarrow> Inl e
            | Inr (ciou, mi) \<Rightarrow>
                (case m_accuracy M (intersect_area_all st) (pred_area_all st) of
                   Inl e \<Rightarrow> Inl e
                 | Inr (cacc, ac) \<Rightarrow>
                     (case m_kappa M (intersect_area_all st) (pred_area_all st)
                             (label_area_all st) of
                        Inl e \<Rightarrow> Inl e
                      | Inr k \<Rightarrow>
                          if samples ds = [] then Inl ZeroDivisionError
                          else Inr \<lparr>rep_images = length (samples ds), rep_miou = mi,
                                    rep_acc = ac, rep_kappa = k, rep_class_iou = ciou,
                                    rep_class_acc = cacc,
                                    rep_average_time =
                                      (\<Sum>idx<length (samples ds). t_run T idx)
                                        / of_nat (length (samples ds))\<rparr>))))"
  proof (cases ?loop)
    case (Inl e)
    with built assms show ?thesis by simp
  next
    case (Inr st)
    with built assms time [OF Inr] show ?thesis
      by (simp add: divide_checked_def split: sum.splits prod.splits)
  qed
  have "samples ds \<noteq> [] \<and> rep_images r = length (samples ds)
      \<and> rep_average_time r
          = (\<Sum>idx<length (samples ds). t_run T idx) / of_nat (length (samples ds))"
    if "test_dataset M datasets T t0 self = Inr r" for r
    using that unfolding eq
    by (auto split: sum.splits prod.splits if_splits)
  with eq show ?thesis by blast
qed

theorem average_time_is_run_time_witness:
  "dataset_type (self_args (example_predictor example_args)) = Some ''Cityscapes''
   \<and> length (samples example_dataset) = 2
   \<and> t_prepare example_timing 0 = 2 \<and> t_finish example_timing 0 = 5
   \<and> (\<Sum>idx<(2::nat). t_run example_timing idx) = 7
   \<and> test_dataset spec_metrics (example_registry example_dataset) example_timing 0
        (example_predictor example_args)
     = Inr \<lparr>rep_images = 2, rep_miou = 5 / 8, rep_acc = Finite (4 / 5),
             rep_kappa = Finite (6 / 11), rep_class_iou = [1 / 2, 3 / 4],
             rep_class_acc = [1, 3 / 4], rep_average_time = 7 / 2\<rparr>
   \<and> rep_average_time
        \<lparr>rep_images = 2, rep_miou = 5 / 8, rep_acc = Finite (4 / 5),
         rep_kappa = Finite (6 / 11), rep_class_iou = [1 / 2, 3 / 4],
         rep_class_acc = [1, 3 / 4], rep_average_time = 7 / 2\<rparr>
     = (\<Sum>idx<length (samples example_dataset). t_run example_timing idx)
         / of_nat (length (samples example_dataset))"
proof -
  let ?r = "\<lparr>rep_images = 2, rep_miou = 5 / 8, rep_acc = Finite (4 / 5),
             rep_kappa = Finite (6 / 11), rep_class_iou = [1 / 2, 3 / 4],
             rep_class_acc = [1, 3 / 4], rep_average_time = 7 / 2 :: rat\<rparr>"
  note inst = average_time_is_run_time [of "example_predictor example_args" "''Cityscapes''"
      "example_registry example_dataset" "\<lambda>kw. Inr example_dataset" example_dataset
      spec_metrics example_timing 0]
  have built: "(\<lambda>kw. Inr example_dataset)
      \<lparr>transforms = cfg_transforms (example_predictor example_args),
       dataset_root = dataset_path (self_args (example_predictor example_args)),
       mode = dataset_mode (self_args (example_predictor example_args))\<rparr>
      = (Inr example_dataset :: error + grid dataset)"
    by simp
  note concl = inst [OF example_built(1) example_built(2) built, THEN conjunct2, rule_format,
      OF example_run]
  have clock: "t_prepare example_timing 0 = 2" "t_finish example_timing 0 = 5"
    "(\<Sum>idx<(2::nat). t_run example_timing idx) = 7"
    by (simp_all add: example_timing_def lessThan_Suc numeral_2_eq_2)
  show ?thesis
    apply (intro conjI)
          apply (rule example_built(1))
         apply (rule example_items(4))
        apply (rule clock(1))
       apply (rule clock(2))
      apply (rule clock(3))
     apply (rule example_run)
    apply (rule concl [THEN conjunct2, THEN conjunct2])
    done
qed

end
